theory Spec2Isabelle
  imports Complex_Main
begin

section \<open>Data model of \<open>nnest/likelihoods.py\<close>\<close>

text \<open>
  Floats are modelled as real numbers, and a one-dimensional array of floats (or a flat
  Python list of floats) as the list of its coordinates; arrays of an integer dtype are
  not modelled. The exceptions of the source are values of \<open>error\<close>. \<open>NonFinite\<close> is
  not an exception: it stands for a float result that is \<open>inf\<close>, \<open>-inf\<close> or \<open>nan\<close>
  (numpy only warns there), which the real numbers cannot hold; the model stops
  following the computation at that point.
\<close>

datatype error =
    NotImplementedError
  | IndexError
  | TypeError
  | ValueError
  | AssertionError string
  | NonFinite
  | RoundingDependent

text \<open>
  \<open>AssertionError msg\<close> carries the fixed part of the assertion's message; the rendering
  of the offending value that the source appends to it is left out.
  \<open>RoundingDependent\<close>, like \<open>NonFinite\<close>, is no exception: it marks a test whose
  outcome hangs on the rounding of the floats, which the real numbers do not decide; the
  model stops there as well.
\<close>

text \<open>
  The fields that \<open>GaussianMix.__init__\<close> stores on the instance. Every position is a
  two-element array \<open>np.asarray([a, b])\<close>, held here as the pair \<open>(a, b)\<close>.
\<close>

record gaussian_mix =
  gm_x_dim :: nat
  gm_sep :: real
  gm_weights :: "real list"
  gm_sigma :: real
  gm_sigmas :: "real list"
  gm_positions :: "(real \<times> real) list"

text \<open>
  \<open>scipy.stats.multivariate_normal.logpdf(x, mean, cov)\<close> belongs to scipy, not to this
  module: the model does not define it. A \<open>Gaussian\<close> instance carries, as \<open>lp\<close>, the
  function that the import provides.
\<close>

type_synonym mvn_logpdf = "real list \<Rightarrow> real list \<Rightarrow> real list list \<Rightarrow> error + real"

text \<open>
  The classes of the module. \<open>Likelihood d\<close> is the base class itself, built with
  \<open>x_dim = d\<close>; \<open>Himmelblau\<close> and \<open>Eggbox\<close> take no argument and have the class
  attribute \<open>x_dim = 2\<close>; \<open>Gaussian d corr lp\<close> is \<open>Gaussian(d, corr)\<close>;
  \<open>GaussianShell d sigma rshell\<close> is \<open>GaussianShell(d, sigma, rshell)\<close>.
\<close>

datatype likelihood =
    Likelihood nat
  | Rosenbrock nat
  | Himmelblau
  | Gaussian nat real mvn_logpdf
  | Eggbox
  | GaussianShell nat real real
  | GaussianMix gaussian_mix

fun x_dim :: "likelihood \<Rightarrow> nat" where
  "x_dim (Likelihood d) = d"
| "x_dim (Rosenbrock d) = d"
| "x_dim Himmelblau = 2"
| "x_dim (Gaussian d corr lp) = d"
| "x_dim Eggbox = 2"
| "x_dim (GaussianShell d sigma rshell) = d"
| "x_dim (GaussianMix g) = gm_x_dim g"

section \<open>The closed-form densities\<close>

text \<open>\<open>xs[i]\<close> for a non-negative index \<open>i\<close>: IndexError out of range.\<close>

definition py_index :: "'a list \<Rightarrow> nat \<Rightarrow> error + 'a" where
  "py_index xs i = (if i < length xs then Inr (xs ! i) else Inl IndexError)"

text \<open>
  \<open>Rosenbrock.__call__\<close>:
  \<^verbatim>\<open>-sum(100.0 * (x[1:] - x[:-1] ** 2.0) ** 2.0 + (1 - x[:-1]) ** 2.0)\<close>.
  The slices \<open>x[1:]\<close> and \<open>x[:-1]\<close> have the same length, so the arithmetic is
  elementwise over their pairs.
\<close>

definition Rosenbrock_call :: "real list \<Rightarrow> real" where
  "Rosenbrock_call x =
     - sum_list (map (\<lambda>(a, b). 100 * (b - a ^ 2) ^ 2 + (1 - a) ^ 2) (zip (butlast x) (drop 1 x)))"

text \<open>
  \<open>Himmelblau.__call__\<close>:
  \<^verbatim>\<open>- (x[0] ** 2 + x[1] - 11.) ** 2 - (x[0] + x[1] ** 2 - 7.) ** 2\<close>.
\<close>

definition Himmelblau_call :: "real list \<Rightarrow> error + real" where
  "Himmelblau_call x =
     (case py_index x 0 of Inl e \<Rightarrow> Inl e | Inr x0 \<Rightarrow>
       (case py_index x 1 of Inl e \<Rightarrow> Inl e | Inr x1 \<Rightarrow>
          Inr (- ((x0 ^ 2 + x1 - 11) ^ 2) - (x0 + x1 ^ 2 - 7) ^ 2)))"

text \<open>
  \<open>Eggbox.__call__\<close>:
  \<^verbatim>\<open>chi = (np.cos(x[0] / 2.)) * (np.cos(x[1] / 2.)); return (2. + chi) ** 5\<close>.
\<close>

definition Eggbox_call :: "real list \<Rightarrow> error + real" where
  "Eggbox_call x =
     (case py_index x 0 of Inl e \<Rightarrow> Inl e | Inr x0 \<Rightarrow>
       (case py_index x 1 of Inl e \<Rightarrow> Inl e | Inr x1 \<Rightarrow>
          (let chi = cos (x0 / 2) * cos (x1 / 2) in Inr ((2 + chi) ^ 5))))"

text \<open>
  \<open>GaussianShell.__call__\<close>:
  \<^verbatim>\<open>rad = np.sqrt(np.sum(x ** 2)); return - ((rad - self.rshell) ** 2) / (2 * self.sigma ** 2)\<close>.
  \<open>rad\<close> is a numpy float, so a zero divisor gives \<open>-inf\<close> or \<open>nan\<close>, not an exception.
\<close>

definition GaussianShell_call :: "real \<Rightarrow> real \<Rightarrow> real list \<Rightarrow> error + real" where
  "GaussianShell_call sigma rshell x =
     (let rad = sqrt (sum_list (map (\<lambda>a. a ^ 2) x))
      in if 2 * sigma ^ 2 = 0 then Inl NonFinite
         else Inr (- ((rad - rshell) ^ 2) / (2 * sigma ^ 2)))"

section \<open>The Gaussian helper and the mixture\<close>

text \<open>
  What \<open>log_gaussian_pdf\<close> can receive as \<open>theta\<close>: a Python float or int, a numpy
  integer scalar (it has no \<open>len\<close> and is no instance of \<open>float\<close> or \<open>int\<close>), or a
  one-dimensional array.
\<close>

datatype theta = PyFloat real | PyInt int | NpInt int | NdArray "real list"

text \<open>
  \<^verbatim>\<open>
  def log_gaussian_pdf(theta, sigma=1, mu=0, ndim=None):
      if ndim is None:
          try:
              ndim = len(theta)
          except TypeError:
              assert isinstance(theta, (float, int)), theta
              ndim = 1
      logl = -(np.sum((theta - mu) ** 2) / (2 * sigma ** 2))
      logl -= np.log(2 * np.pi * (sigma ** 2)) * ndim / 2.0
      return logl
  \<close>
\<close>

fun infer_ndim :: "theta \<Rightarrow> error + int" where
  "infer_ndim (NdArray xs) = Inr (int (length xs))"
| "infer_ndim (PyFloat a) = Inr 1"
| "infer_ndim (PyInt k) = Inr 1"
| "infer_ndim (NpInt k) = Inl (AssertionError [])"

fun sum_sq_dev :: "theta \<Rightarrow> real \<Rightarrow> real" where
  "sum_sq_dev (NdArray xs) mu = sum_list (map (\<lambda>a. (a - mu) ^ 2) xs)"
| "sum_sq_dev (PyFloat a) mu = (a - mu) ^ 2"
| "sum_sq_dev (PyInt k) mu = (real_of_int k - mu) ^ 2"
| "sum_sq_dev (NpInt k) mu = (real_of_int k - mu) ^ 2"

definition log_gaussian_pdf :: "theta \<Rightarrow> real \<Rightarrow> real \<Rightarrow> int option \<Rightarrow> error + real" where
  "log_gaussian_pdf th sigma mu ndim =
     (case (case ndim of None \<Rightarrow> infer_ndim th | Some n \<Rightarrow> Inr n) of
        Inl e \<Rightarrow> Inl e
      | Inr n \<Rightarrow>
          if 2 * sigma ^ 2 = 0 then Inl NonFinite
          else (let logl = - (sum_sq_dev th mu / (2 * sigma ^ 2))
                in Inr (logl - ln (2 * pi * sigma ^ 2) * real_of_int n / 2)))"

text \<open>
  \<open>assert np.isclose(sum(weights), 1)\<close>. Python's \<open>sum\<close> adds the doubles one by one
  and rounds each partial sum, and \<open>np.isclose(a, b)\<close>, with numpy's default tolerances
  \<open>rtol = 1e-05\<close> and \<open>atol = 1e-08\<close>, is the comparison of doubles
  \<open>|a - b| <= atol + rtol * |b|\<close>. The model has the real sum of the weights, which
  the float sum of at most four weights approaches to within a few units of
  \<open>2^-53\<close> times the sum of their magnitudes. \<open>float_slack\<close>, far larger than that
  error and the comparison's, is the margin around the tolerance inside which the model
  does not decide the test.
\<close>

definition float_slack :: "real list \<Rightarrow> real" where
  "float_slack ws = (1 + sum_list (map abs ws)) / 10 ^ 12"

definition isclose :: "real \<Rightarrow> real \<Rightarrow> real \<Rightarrow> bool option" where
  "isclose slack a b =
     (let tol = 1 / 10 ^ 8 + 1 / 10 ^ 5 * \<bar>b\<bar>
      in if \<bar>a - b\<bar> \<le> tol - slack then Some True
         else if tol + slack < \<bar>a - b\<bar> then Some False
         else None)"

text \<open>
  \<open>GaussianMix.__init__(x_dim, sep, weights, sigma)\<close>: the two assertions, then the
  fields; \<open>positions[:len(weights)]\<close> keeps the first \<open>len(weights)\<close> of the four
  positions.
\<close>

definition GaussianMix_init :: "nat \<Rightarrow> real \<Rightarrow> real list \<Rightarrow> real \<Rightarrow> error + likelihood" where
  "GaussianMix_init d sep weights sigma =
     (if length weights \<notin> {2, 3, 4}
      then Inl (AssertionError ''Weights must have 2, 3 or 4 components. Weights='')
      else (case isclose (float_slack weights) (sum_list weights) 1 of
              None \<Rightarrow> Inl RoundingDependent
            | Some False \<Rightarrow> Inl (AssertionError ''Weights must sum to 1! Weights='')
            | Some True \<Rightarrow> Inr (GaussianMix
                \<lparr>gm_x_dim = d, gm_sep = sep, gm_weights = weights, gm_sigma = sigma,
                 gm_sigmas = replicate (length weights) sigma,
                 gm_positions =
                   take (length weights) [(0, sep), (0, - sep), (sep, 0), (- sep, 0)]\<rparr>)))"

subsection \<open>The mixture's evaluation, on an explicit store\<close>

text \<open>
  \<open>GaussianMix.__call__\<close> copies its argument and subtracts in place from the copy, so
  it is modelled on a store of arrays: an address is an index into the store.
  \<open>copy.deepcopy\<close> allocates a new array with the same contents.
\<close>

type_synonym store = "real list list"

definition deepcopy :: "store \<Rightarrow> nat \<Rightarrow> store \<times> nat" where
  "deepcopy h a = (h @ [h ! a], length h)"

text \<open>
  \<^verbatim>\<open>thetas[-1][:2] -= pos\<close> on the array at address \<open>b\<close>: the slice has
  \<open>min 2 (len)\<close> elements, and numpy refuses to broadcast the two-element \<open>pos\<close>
  into a shorter slice (ValueError).
\<close>

definition isub_slice2 :: "store \<Rightarrow> nat \<Rightarrow> real \<times> real \<Rightarrow> error + store" where
  "isub_slice2 h b pos =
     (case h ! b of
        t0 # t1 # rest \<Rightarrow> Inr (h[b := (t0 - fst pos) # (t1 - snd pos) # rest])
      | _ \<Rightarrow> Inl ValueError)"

text \<open>
  The first loop of \<open>__call__\<close>: for each position, append a copy of \<open>theta\<close> (at
  address \<open>a\<close>) to \<open>thetas\<close> and shift the copy. The store is returned also when the
  loop raises.
\<close>

fun shifted_copies ::
  "store \<Rightarrow> nat \<Rightarrow> (real \<times> real) list \<Rightarrow> nat list \<Rightarrow> store \<times> (error + nat list)" where
  "shifted_copies h a [] thetas = (h, Inr thetas)"
| "shifted_copies h a (pos # ps) thetas =
     (let (h1, b) = deepcopy h a
      in case isub_slice2 h1 b pos of
           Inl e \<Rightarrow> (h1, Inl e)
         | Inr h2 \<Rightarrow> shifted_copies h2 a ps (thetas @ [b]))"

text \<open>
  The terms of the mixture are floats that may be \<open>-inf\<close> (\<open>np.log(0.0)\<close>) or
  \<open>nan\<close> (\<open>np.log\<close> of a negative weight); \<open>scipy.special.logsumexp\<close> is the
  logarithm of the sum of the exponentials, where \<open>exp(-inf) = 0\<close>. It is \<open>nan\<close> when a
  term is, and \<open>-inf\<close> when no term is finite.
\<close>

datatype xfloat = Fin real | NegInf | NaN

definition np_log :: "real \<Rightarrow> xfloat" where
  "np_log w = (if 0 < w then Fin (ln w) else if w = 0 then NegInf else NaN)"

fun xadd :: "real \<Rightarrow> xfloat \<Rightarrow> xfloat" where
  "xadd l (Fin m) = Fin (l + m)"
| "xadd l NegInf = NegInf"
| "xadd l NaN = NaN"

fun xexp :: "xfloat \<Rightarrow> real" where
  "xexp (Fin l) = exp l"
| "xexp NegInf = 0"
| "xexp NaN = 0"

definition logsumexp :: "xfloat list \<Rightarrow> error + real" where
  "logsumexp ls =
     (if NaN \<in> set ls then Inl NonFinite
      else (let s = sum_list (map xexp ls)
            in if s = 0 then Inl NonFinite else Inr (ln s)))"

text \<open>
  The second loop:
  \<^verbatim>\<open>[(log_gaussian_pdf(thetas[i], sigma=self.sigmas[i]) + np.log(self.weights[i]))
      for i in range(len(self.weights))]\<close>.
\<close>

definition logl_term :: "gaussian_mix \<Rightarrow> store \<Rightarrow> nat list \<Rightarrow> nat \<Rightarrow> error + xfloat" where
  "logl_term g h thetas i =
     (case py_index thetas i of Inl e \<Rightarrow> Inl e | Inr b \<Rightarrow>
       (case py_index (gm_sigmas g) i of Inl e \<Rightarrow> Inl e | Inr sg \<Rightarrow>
         (case log_gaussian_pdf (NdArray (h ! b)) sg 0 None of Inl e \<Rightarrow> Inl e | Inr l \<Rightarrow>
           (case py_index (gm_weights g) i of Inl e \<Rightarrow> Inl e | Inr w \<Rightarrow>
              Inr (xadd l (np_log w))))))"

text \<open>Running a list of fallible computations in order, stopping at the first error.\<close>

fun collect :: "(error + 'a) list \<Rightarrow> error + 'a list" where
  "collect [] = Inr []"
| "collect (Inl e # rs) = Inl e"
| "collect (Inr y # rs) = (case collect rs of Inl e \<Rightarrow> Inl e | Inr ys \<Rightarrow> Inr (y # ys))"

definition GaussianMix_call :: "gaussian_mix \<Rightarrow> store \<Rightarrow> nat \<Rightarrow> store \<times> (error + real)" where
  "GaussianMix_call g h a =
     (case shifted_copies h a (gm_positions g) [] of
        (h1, Inl e) \<Rightarrow> (h1, Inl e)
      | (h1, Inr thetas) \<Rightarrow>
          (case collect (map (logl_term g h1 thetas) [0..<length (gm_weights g)]) of
             Inl e \<Rightarrow> (h1, Inl e)
           | Inr logls \<Rightarrow> (h1, logsumexp logls)))"

section \<open>Evaluation, maximum and bounds of every class\<close>

text \<open>\<open>np.eye(d) + corr * (1 - np.eye(d))\<close>.\<close>

definition eye :: "nat \<Rightarrow> nat \<Rightarrow> nat \<Rightarrow> real" where
  "eye d i j = (if i = j then 1 else 0)"

definition Gaussian_cov :: "nat \<Rightarrow> real \<Rightarrow> real list list" where
  "Gaussian_cov d corr =
     map (\<lambda>i. map (\<lambda>j. eye d i j + corr * (1 - eye d i j)) [0..<d]) [0..<d]"

text \<open>
  \<open>self(x)\<close>, the \<open>__call__\<close> of each class. The mixture runs on a store that holds
  only the argument; the store it leaves behind is dropped here.
\<close>

fun call :: "likelihood \<Rightarrow> real list \<Rightarrow> error + real" where
  "call (Likelihood d) x = Inl NotImplementedError"
| "call (Rosenbrock d) x = Inr (Rosenbrock_call x)"
| "call Himmelblau x = Himmelblau_call x"
| "call (Gaussian d corr lp) x = lp x (replicate d 0) (Gaussian_cov d corr)"
| "call Eggbox x = Eggbox_call x"
| "call (GaussianShell d sigma rshell) x = GaussianShell_call sigma rshell x"
| "call (GaussianMix g) x = snd (GaussianMix_call g [x] 0)"

text \<open>
  \<open>np.argmax(weights)\<close>: the first index of the largest element (ValueError on an empty
  sequence).
\<close>

definition np_argmax :: "real list \<Rightarrow> error + nat" where
  "np_argmax ws =
     (case ws of
        [] \<Rightarrow> Inl ValueError
      | w # rest \<Rightarrow> Inr (length (takeWhile (\<lambda>a. a < fold max rest w) ws)))"

text \<open>
  \<open>max_loglike\<close>: a property of every subclass, which evaluates the density at one
  point; on the base class a method that raises when it is called.
\<close>

fun max_loglike :: "likelihood \<Rightarrow> error + real" where
  "max_loglike (Likelihood d) = Inl NotImplementedError"
| "max_loglike (Rosenbrock d) = call (Rosenbrock d) (replicate d 1)"
| "max_loglike Himmelblau = call Himmelblau [3, 2]"
| "max_loglike (Gaussian d corr lp) = call (Gaussian d corr lp) (replicate d 0)"
| "max_loglike Eggbox = call Eggbox (replicate (x_dim Eggbox) 0)"
| "max_loglike (GaussianShell d sigma rshell) =
     call (GaussianShell d sigma rshell) ([rshell] @ replicate (d - 1) 0)"
| "max_loglike (GaussianMix g) =
     (case np_argmax (gm_weights g) of Inl e \<Rightarrow> Inl e | Inr k \<Rightarrow>
       (case py_index (gm_positions g) k of Inl e \<Rightarrow> Inl e | Inr pos \<Rightarrow>
          call (GaussianMix g) [fst pos, snd pos]))"

text \<open>\<open>sample_range\<close>: the pair of the lower and the upper bounds.\<close>

fun sample_range :: "likelihood \<Rightarrow> error + (real list \<times> real list)" where
  "sample_range (Likelihood d) = Inl NotImplementedError"
| "sample_range (Rosenbrock d) = Inr (replicate d (- 2), replicate d 12)"
| "sample_range Himmelblau = Inr (replicate (x_dim Himmelblau) (- 5), replicate (x_dim Himmelblau) 5)"
| "sample_range (Gaussian d corr lp) = Inr (replicate d (- 5), replicate d 5)"
| "sample_range Eggbox = Inr (replicate (x_dim Eggbox) (- 15), replicate (x_dim Eggbox) 15)"
| "sample_range (GaussianShell d sigma rshell) =
     Inr (replicate d (- rshell - 5 * sigma), replicate d (rshell + 5 * sigma))"
| "sample_range (GaussianMix g) =
     Inr (replicate (gm_x_dim g) (- gm_sep g - 5 * gm_sigma g),
          replicate (gm_x_dim g) (gm_sep g + 5 * gm_sigma g))"

section \<open>Batch evaluation\<close>

text \<open>
  A numpy array of floats, of one dimension or of two; the latter is given by its rows,
  and \<open>Array2 []\<close> is an array of shape \<open>(0, d)\<close>.
\<close>

datatype ndarray = Array1 "real list" | Array2 "real list list"

text \<open>
  What \<open>loglike\<close> receives: a Python list of points, a flat Python list of floats, or
  an array. The Python list \<open>[]\<close> is both \<open>PyPoints []\<close> and \<open>PyFloats []\<close>.
\<close>

datatype batch = PyPoints "real list list" | PyFloats "real list" | Nd ndarray

text \<open>
  \<open>if isinstance(x, list): x = np.array(x)\<close>. The empty list becomes the
  one-dimensional array of shape \<open>(0,)\<close>, a list of points of one length a
  two-dimensional array, and a ragged list is refused (ValueError; numpy 1.24 and
  later).
\<close>

fun as_array :: "batch \<Rightarrow> error + ndarray" where
  "as_array (PyFloats xs) = Inr (Array1 xs)"
| "as_array (PyPoints []) = Inr (Array1 [])"
| "as_array (PyPoints (r # rs)) =
     (if list_all (\<lambda>q. length q = length r) rs then Inr (Array2 (r # rs)) else Inl ValueError)"
| "as_array (Nd a) = Inr a"

text \<open>The result of \<open>loglike\<close>: one scalar, or the array of the rows' scalars.\<close>

datatype out = Scalar real | Seq "real list"

text \<open>
  \<^verbatim>\<open>
  def loglike(self, x):
      if isinstance(x, list):
          x = np.array(x)
      if len(x.shape) > 1:
          return np.array([self(x) for x in x])
      else:
          return self(x)
  \<close>
\<close>

fun loglike_array :: "likelihood \<Rightarrow> ndarray \<Rightarrow> error + out" where
  "loglike_array v (Array2 rs) =
     (case collect (map (call v) rs) of Inl e \<Rightarrow> Inl e | Inr ys \<Rightarrow> Inr (Seq ys))"
| "loglike_array v (Array1 xs) =
     (case call v xs of Inl e \<Rightarrow> Inl e | Inr y \<Rightarrow> Inr (Scalar y))"

definition loglike :: "likelihood \<Rightarrow> batch \<Rightarrow> error + out" where
  "loglike v x =
     (case as_array x of Inl e \<Rightarrow> Inl e | Inr a \<Rightarrow> loglike_array v a)"

section \<open>The rejection sampler\<close>

text \<open>
  The process-wide random generator is the stream \<open>u\<close> of the variates it hands out,
  each meant to lie in \<open>[0, 1)\<close>, and a cursor \<open>c\<close> into that stream.
  \<open>np.random.uniform(low, high, size)\<close> fills the array in row order with
  \<open>low + (high - low) * variate\<close>, the bounds running along the last axis (\<open>low\<close> and
  \<open>high\<close> have one entry for each of the \<open>x_dim\<close> columns).
\<close>

definition uniform_row :: "(nat \<Rightarrow> real) \<Rightarrow> nat \<Rightarrow> real list \<Rightarrow> real list \<Rightarrow> real list" where
  "uniform_row u c low high =
     map (\<lambda>(j, l, h). l + (h - l) * u (c + j)) (zip [0..<length low] (zip low high))"

definition uniform_matrix ::
  "(nat \<Rightarrow> real) \<Rightarrow> nat \<Rightarrow> real list \<Rightarrow> real list \<Rightarrow> nat \<Rightarrow> nat \<Rightarrow> real list list" where
  "uniform_matrix u c low high n d = map (\<lambda>i. uniform_row u (c + i * d) low high) [0..<n]"

definition uniform_vector :: "(nat \<Rightarrow> real) \<Rightarrow> nat \<Rightarrow> real \<Rightarrow> real \<Rightarrow> nat \<Rightarrow> real list" where
  "uniform_vector u c low high n = map (\<lambda>i. low + (high - low) * u (c + i)) [0..<n]"

text \<open>
  The log-likelihoods as an array of \<open>n\<close> entries; a scalar would be broadcast against
  the \<open>n\<close> draws.
\<close>

fun as_seq :: "nat \<Rightarrow> out \<Rightarrow> real list" where
  "as_seq n (Seq ys) = ys"
| "as_seq n (Scalar y) = replicate n y"

text \<open>
  \<open>np.exp\<close> on doubles: where the exponential is below half the smallest positive
  double, \<open>2^-1075\<close>, that is for an argument below \<open>-1075 * log(2)\<close> (about
  \<open>-745.13\<close>), the result is \<open>0.0\<close>, and the comparison \<open>ratio > r\<close> with a draw
  \<open>r = 0.0\<close> is false. The rounding of the positive results is not modelled.
\<close>

definition np_exp :: "real \<Rightarrow> real" where
  "np_exp x = (if x < - (1075 * ln 2) then 0 else exp x)"

text \<open>\<open>x[np.where(ratio > r)]\<close>: the rows whose ratio exceeds the row's draw.\<close>

definition accepted :: "real list list \<Rightarrow> real list \<Rightarrow> real list \<Rightarrow> real list list" where
  "accepted x ratio r = map fst (filter (\<lambda>(xi, ra, ri). ra > ri) (zip x (zip ratio r)))"

text \<open>\<open>samples[0:n]\<close>, where a negative \<open>n\<close> counts from the end.\<close>

definition slice_to :: "'a list \<Rightarrow> int \<Rightarrow> 'a list" where
  "slice_to xs n = (if 0 \<le> n then take (nat n) xs else take (length xs - nat (- n)) xs)"

text \<open>
  The loop of \<open>sample\<close>, which may run forever: not returning is the value \<open>None\<close>.
  \<^verbatim>\<open>
  while samples.shape[0] < num_samples:
      x = np.random.uniform(low=low, high=high, size=(1000, self.x_dim))
      loglike = self.loglike(x)
      ratio = np.exp(loglike - max_loglike)
      r = np.random.uniform(low=0, high=1, size=(1000,))
      samples = np.vstack((x[np.where(ratio > r)], samples))
  \<close>
  The loop returns the samples and the cursor it has reached.
\<close>

partial_function (option) sample_loop ::
  "likelihood \<Rightarrow> real \<Rightarrow> real list \<Rightarrow> real list \<Rightarrow> int \<Rightarrow> (nat \<Rightarrow> real) \<Rightarrow> nat \<Rightarrow>
   real list list \<Rightarrow> (error + real list list \<times> nat) option" where
  "sample_loop v mx low high num_samples u c samples =
     (if int (length samples) < num_samples
      then (let x = uniform_matrix u c low high 1000 (x_dim v);
                c1 = c + 1000 * x_dim v
            in case loglike v (Nd (Array2 x)) of
                 Inl e \<Rightarrow> Some (Inl e)
               | Inr ll \<Rightarrow>
                   (let ratio = map (\<lambda>l. np_exp (l - mx)) (as_seq 1000 ll);
                        r = uniform_vector u c1 0 1 1000;
                        c2 = c1 + 1000
                    in sample_loop v mx low high num_samples u c2 (accepted x ratio r @ samples)))
      else Some (Inr (samples, c)))"

text \<open>
  \<^verbatim>\<open>
  def sample(self, num_samples):
      max_loglike = self.max_loglike
      low, high = self.sample_range
      samples = np.empty((0, self.x_dim))
      while ...
      return samples[0:num_samples]
  \<close>
  On the base class \<open>self.max_loglike\<close> and \<open>self.sample_range\<close> are bound methods,
  not properties: reading them raises nothing, and unpacking the method into
  \<open>low, high\<close> is a TypeError. Where a log-density is not finite the model returns
  \<open>NonFinite\<close>; the source goes on with \<open>nan\<close> ratios, whose comparisons are false, so
  that it accepts no candidate.
\<close>

fun sample ::
  "likelihood \<Rightarrow> int \<Rightarrow> (nat \<Rightarrow> real) \<Rightarrow> nat \<Rightarrow> (error + real list list \<times> nat) option" where
  "sample (Likelihood d) num_samples u c = Some (Inl TypeError)"
| "sample v num_samples u c =
     (case max_loglike v of
        Inl e \<Rightarrow> Some (Inl e)
      | Inr mx \<Rightarrow>
          (case sample_range v of
             Inl e \<Rightarrow> Some (Inl e)
           | Inr (low, high) \<Rightarrow>
               (case sample_loop v mx low high num_samples u c [] of
                  None \<Rightarrow> None
                | Some (Inl e) \<Rightarrow> Some (Inl e)
                | Some (Inr (samples, c')) \<Rightarrow> Some (Inr (slice_to samples num_samples, c')))))"

section \<open>The maximizers that the specification declares\<close>

text \<open>
  This definition follows the specification's table of the variants (column "Max
  location"), not the source: the all-ones vector, \<open>(3, 2)\<close>, the zero vector, the point
  at distance \<open>rshell\<close> along the first axis, and the position of the mixture component
  with the largest weight. Each is a point of \<open>x_dim\<close> coordinates, as \<open>evaluate\<close>
  takes them, where \<open>x_dim\<close> can hold it (at least 1 for the shell, at least 2 for the
  mixture): the mixture's positions lie in the plane of the first two coordinates, and
  the others are zero. The base class declares none.
\<close>

fun max_location :: "likelihood \<Rightarrow> error + real list" where
  "max_location (Likelihood d) = Inl NotImplementedError"
| "max_location (Rosenbrock d) = Inr (replicate d 1)"
| "max_location Himmelblau = Inr [3, 2]"
| "max_location (Gaussian d corr lp) = Inr (replicate d 0)"
| "max_location Eggbox = Inr [0, 0]"
| "max_location (GaussianShell d sigma rshell) = Inr (rshell # replicate (d - 1) 0)"
| "max_location (GaussianMix g) =
     (case np_argmax (gm_weights g) of Inl e \<Rightarrow> Inl e | Inr k \<Rightarrow>
       (case py_index (gm_positions g) k of Inl e \<Rightarrow> Inl e | Inr pos \<Rightarrow>
          Inr ([fst pos, snd pos] @ replicate (gm_x_dim g - 2) 0)))"

section \<open>Points inside a box\<close>

text \<open>
  A point lies within the bounds \<open>(low, high)\<close> when it has as many coordinates as the
  bounds and each coordinate lies between its lower and its upper bound.
\<close>

definition in_box :: "real list \<Rightarrow> real list \<Rightarrow> real list \<Rightarrow> bool" where
  "in_box low high p \<longleftrightarrow> list_all2 (\<le>) low p \<and> list_all2 (\<le>) p high"

section \<open>Helper facts\<close>

subsection \<open>Closed forms\<close>

lemma float_slack_pos: "0 < float_slack ws"
proof -
  have "0 \<le> sum_list (map abs ws)" by (rule sum_list_nonneg) auto
  then show ?thesis by (simp add: float_slack_def)
qed

lemma cos_prod_bounds: "- 1 \<le> cos (a::real) * cos b \<and> cos a * cos b \<le> 1"
proof -
  have "\<bar>cos a * cos b\<bar> \<le> 1"
    by (simp add: abs_mult mult_le_one)
  then show ?thesis by linarith
qed

lemma Eggbox_call_pair:
  "Eggbox_call [x0, x1] = Inr ((2 + cos (x0 / 2) * cos (x1 / 2)) ^ 5)"
  by (simp add: Eggbox_call_def py_index_def)

lemma zip_replicate2: "zip (replicate m a) (replicate n b) = replicate (min m n) (a, b)"
proof (induction m arbitrary: n)
  case 0 show ?case by simp
next
  case (Suc m) then show ?case by (cases n) simp_all
qed

lemma Rosenbrock_ones: "Rosenbrock_call (replicate d 1) = 0"
  by (simp add: Rosenbrock_call_def butlast_conv_take zip_replicate2 sum_list_replicate)

subsection \<open>The store keeps its earlier arrays\<close>

lemma isub_slice2_frame:
  "isub_slice2 h b pos = Inr h2 \<Longrightarrow> length h2 = length h \<and> (\<forall>a. a \<noteq> b \<longrightarrow> h2 ! a = h ! a)"
  by (auto simp: isub_slice2_def split: list.splits)

lemma isub_slice2_prefix:
  "isub_slice2 h b pos = Inr h2 \<Longrightarrow> n \<le> b \<Longrightarrow> take n h2 = take n h"
  by (auto simp: isub_slice2_def split: list.splits)

lemma shifted_copies_prefix:
  "shifted_copies h a ps thetas = (h', r) \<Longrightarrow> length h \<le> length h' \<and> take (length h) h' = h"
proof (induction ps arbitrary: h thetas)
  case Nil
  then show ?case by simp
next
  case (Cons pos ps)
  let ?h1 = "h @ [h ! a]"
  show ?case
  proof (cases "isub_slice2 ?h1 (length h) pos")
    case (Inl e)
    with Cons.prems show ?thesis by (auto simp: deepcopy_def)
  next
    case (Inr h2)
    with Cons.prems have rec: "shifted_copies h2 a ps (thetas @ [length h]) = (h', r)"
      by (simp add: deepcopy_def)
    from Inr have len2: "length h2 = Suc (length h)"
      using isub_slice2_frame [of ?h1 "length h" pos h2] by simp
    from Inr have pre2: "take (length h) h2 = h"
      using isub_slice2_prefix [of ?h1 "length h" pos h2 "length h"] by simp
    from Cons.IH [OF rec] have ih: "length h2 \<le> length h'" "take (length h2) h' = h2"
      by simp_all
    have "take (length h) h' = take (length h) (take (length h2) h')"
      using len2 by (simp add: min_def)
    also have "\<dots> = h" using ih pre2 by simp
    finally show ?thesis using ih len2 by simp
  qed
qed

lemma GaussianMix_call_store:
  "\<exists>thetas_or_error. shifted_copies h a (gm_positions g) [] = (fst (GaussianMix_call g h a), thetas_or_error)"
  by (cases "shifted_copies h a (gm_positions g) []")
     (auto simp: GaussianMix_call_def split: sum.splits)

subsection \<open>Collected results, by index\<close>

lemma collect_map_Inr:
  "collect (map f rs) = Inr ys \<longleftrightarrow> length ys = length rs \<and> (\<forall>i<length rs. f (rs ! i) = Inr (ys ! i))"
proof (induction rs arbitrary: ys)
  case Nil
  show ?case by auto
next
  case (Cons r rs)
  show ?case
  proof (cases "f r")
    case (Inl e)
    then show ?thesis by auto
  next
    case (Inr y)
    show ?thesis
    proof (cases ys)
      case Nil
      then show ?thesis using Inr by (simp split: sum.splits)
    next
      case (Cons y' ys')
      then show ?thesis using Inr Cons.IH [of ys']
        by (auto simp: less_Suc_eq_0_disj split: sum.splits)
    qed
  qed
qed

subsection \<open>Candidates lie in the box; the loop keeps them there\<close>

lemma uniform_row_nth:
  "length high = length low \<Longrightarrow> j < length low \<Longrightarrow>
     uniform_row u c low high ! j = low ! j + (high ! j - low ! j) * u (c + j)"
  by (simp add: uniform_row_def)

lemma uniform_row_length:
  "length high = length low \<Longrightarrow> length (uniform_row u c low high) = length low"
  by (simp add: uniform_row_def)

lemma affine_between:
  fixes l h t :: real
  assumes "l \<le> h" "0 \<le> t" "t < 1"
  shows "l \<le> l + (h - l) * t \<and> l + (h - l) * t \<le> h"
proof -
  have a: "0 \<le> (h - l) * t" using assms by simp
  have "(h - l) * t \<le> (h - l) * 1" using assms by (intro mult_left_mono) auto
  then show ?thesis using a by simp
qed

lemma uniform_row_in_box:
  assumes "list_all2 (\<le>) low high" "\<forall>k. 0 \<le> u k \<and> u k < 1"
  shows "in_box low high (uniform_row u c low high)"
proof -
  from assms(1) have len: "length high = length low" and le: "\<forall>j<length low. low ! j \<le> high ! j"
    by (simp_all add: list_all2_conv_all_nth)
  show ?thesis
    unfolding in_box_def list_all2_conv_all_nth
    using len le assms(2) affine_between
    by (simp add: uniform_row_length uniform_row_nth)
qed

lemma uniform_matrix_in_box:
  assumes "list_all2 (\<le>) low high" "\<forall>k. 0 \<le> u k \<and> u k < 1"
  shows "\<forall>p \<in> set (uniform_matrix u c low high n d). in_box low high p"
  using uniform_row_in_box [OF assms] by (auto simp: uniform_matrix_def)

lemma accepted_subset: "set (accepted x ratio r) \<subseteq> set x"
  by (auto simp: accepted_def dest: set_zip_leftD)

lemma sample_loop_invariant:
  assumes run: "sample_loop v mx low high n u c samples = Some res"
  shows "list_all2 (\<le>) low high \<Longrightarrow> (\<forall>k. 0 \<le> u k \<and> u k < 1) \<Longrightarrow>
   (\<forall>p \<in> set samples. in_box low high p) \<Longrightarrow> res = Inr (rows, c') \<Longrightarrow>
   (\<forall>p \<in> set rows. in_box low high p) \<and> n \<le> int (length rows)"
proof -
  define P where "P = (\<lambda>(v::likelihood) (mx::real) (low::real list) (high::real list) (n::int)
       (u::nat \<Rightarrow> real) (c::nat) (samples::real list list)
       (res::error + real list list \<times> nat).
     list_all2 (\<le>) low high \<longrightarrow> (\<forall>k. 0 \<le> u k \<and> u k < (1::real)) \<longrightarrow>
     (\<forall>p \<in> set samples. in_box low high p) \<longrightarrow>
     (\<forall>rows (c'::nat). res = Inr (rows, c') \<longrightarrow>
        (\<forall>p \<in> set rows. in_box low high p) \<and> n \<le> int (length rows)))"
  have "P v mx low high n u c samples res"
  proof (rule sample_loop.raw_induct [where P = P, OF _ run])
    fix loop v mx low high n u c samples res
    assume IH: "\<And>v mx low high n u c samples res.
        loop v mx low high n u c samples = Some res \<Longrightarrow> P v mx low high n u c samples res"
    let ?x = "uniform_matrix u c low high 1000 (x_dim v)"
    assume body: "(if int (length samples) < n
        then let x = uniform_matrix u c low high 1000 (x_dim v);
                 c1 = c + 1000 * x_dim v
             in case loglike v (Nd (Array2 x)) of Inl e \<Rightarrow> Some (Inl e)
                | Inr ll \<Rightarrow>
                    let ratio = map (\<lambda>l. np_exp (l - mx)) (as_seq 1000 ll);
                        r = uniform_vector u c1 0 1 1000; c2 = c1 + 1000
                    in loop v mx low high n u c2 (accepted x ratio r @ samples)
        else Some (Inr (samples, c))) = Some res"
    show "P v mx low high n u c samples res"
    proof (cases "int (length samples) < n")
      case False
      with body have "res = Inr (samples, c)" by simp
      with False show ?thesis by (simp add: P_def)
    next
      case True
      show ?thesis
      proof (cases "loglike v (Nd (Array2 ?x))")
        case (Inl e)
        with True body have "res = Inl e" by (simp add: Let_def)
        then show ?thesis by (simp add: P_def)
      next
        case (Inr ll)
        let ?acc = "accepted ?x (map (\<lambda>l. np_exp (l - mx)) (as_seq 1000 ll))
                      (uniform_vector u (c + 1000 * x_dim v) 0 1 1000)"
        from True Inr body
        have rec: "loop v mx low high n u (c + 1000 * x_dim v + 1000) (?acc @ samples) = Some res"
          by (simp add: Let_def)
        have sub: "set ?acc \<subseteq> set ?x" by (rule accepted_subset)
        show ?thesis
          unfolding P_def
        proof (intro impI allI)
          fix rows c'
          assume box: "list_all2 (\<le>) low high" and u: "\<forall>k. 0 \<le> u k \<and> u k < 1"
            and inv: "\<forall>p \<in> set samples. in_box low high p" and res: "res = Inr (rows, c')"
          have "\<forall>p \<in> set ?x. in_box low high p"
            using uniform_matrix_in_box [OF box u] by blast
          with sub inv have inv': "\<forall>p \<in> set (?acc @ samples). in_box low high p"
            by auto
          from IH [OF rec] box u inv' res
          show "(\<forall>p \<in> set rows. in_box low high p) \<and> n \<le> int (length rows)"
            by (simp add: P_def)
        qed
      qed
    qed
  qed
  then show "list_all2 (\<le>) low high \<Longrightarrow> (\<forall>k. 0 \<le> u k \<and> u k < 1) \<Longrightarrow>
   (\<forall>p \<in> set samples. in_box low high p) \<Longrightarrow> res = Inr (rows, c') \<Longrightarrow>
   (\<forall>p \<in> set rows. in_box low high p) \<and> n \<le> int (length rows)"
    by (simp add: P_def)
qed

lemma sample_range_lengths:
  "sample_range v = Inr (low, high) \<Longrightarrow> length low = x_dim v \<and> length high = x_dim v"
  by (cases v) auto

lemma in_box_length: "in_box low high p \<Longrightarrow> length p = length low"
  by (auto simp: in_box_def dest: list_all2_lengthD)

lemma sample_unfold:
  "sample v n u c =
     (case v of Likelihood d \<Rightarrow> Some (Inl TypeError)
      | _ \<Rightarrow>
     (case max_loglike v of
        Inl e \<Rightarrow> Some (Inl e)
      | Inr mx \<Rightarrow>
          (case sample_range v of
             Inl e \<Rightarrow> Some (Inl e)
           | Inr (low, high) \<Rightarrow>
               (case sample_loop v mx low high n u c [] of
                  None \<Rightarrow> None
                | Some (Inl e) \<Rightarrow> Some (Inl e)
                | Some (Inr (samples, c')) \<Rightarrow> Some (Inr (slice_to samples n, c'))))))"
  by (cases v) (simp_all only: sample.simps likelihood.case)

lemma sample_Inr_loop:
  assumes "sample v n u c = Some (Inr (rows, c'))" "sample_range v = Inr (low, high)"
  shows "\<exists>mx samples. max_loglike v = Inr mx
           \<and> sample_loop v mx low high n u c [] = Some (Inr (samples, c'))
           \<and> rows = slice_to samples n"
proof (cases "max_loglike v")
  case (Inl e)
  with assms(1) show ?thesis
    by (subst (asm) sample_unfold) (simp split: likelihood.splits)
next
  case (Inr mx)
  show ?thesis
  proof (cases "sample_loop v mx low high n u c []")
    case None
    with assms Inr show ?thesis
      by (subst (asm) sample_unfold) (simp split: likelihood.splits)
  next
    case (Some res)
    show ?thesis
    proof (cases res)
      case (Inl e)
      with assms Inr Some show ?thesis
        by (subst (asm) sample_unfold) (simp split: likelihood.splits)
    next
      case r: (Inr sc)
      obtain samples c2 where sc: "sc = (samples, c2)" by (cases sc)
      from assms Inr Some r sc have "rows = slice_to samples n \<and> c' = c2"
        by (subst (asm) sample_unfold) (simp split: likelihood.splits)
      with Inr Some r sc show ?thesis by simp
    qed
  qed
qed


subsection \<open>A run on the stream of zeros\<close>

lemma map_const_upt: "map (\<lambda>i. k) [0..<n] = replicate n k"
  by (simp add: map_replicate_const)

lemma uniform_row_zero: "length high = length low \<Longrightarrow> uniform_row (\<lambda>k. 0) c low high = low"
  by (rule nth_equalityI) (simp_all add: uniform_row_length uniform_row_nth)

lemma uniform_matrix_zero:
  "length high = length low \<Longrightarrow> uniform_matrix (\<lambda>k. 0) c low high n d = replicate n low"
  by (simp add: uniform_matrix_def uniform_row_zero map_const_upt)

lemma uniform_vector_zero: "uniform_vector (\<lambda>k. 0) c 0 1 n = replicate n 0"
  by (simp add: uniform_vector_def map_const_upt)

lemma collect_replicate: "collect (replicate n (Inr y)) = Inr (replicate n y)"
  by (induction n) simp_all

lemma loglike_replicate:
  "call v p = Inr y \<Longrightarrow> loglike v (Nd (Array2 (replicate n p))) = Inr (Seq (replicate n y))"
  by (simp add: loglike_def collect_replicate)

lemma accepted_replicate:
  "accepted (replicate n p) (replicate n a) (replicate n b) = (if a > b then replicate n p else [])"
  by (simp add: accepted_def zip_replicate2)

lemma sample_loop_continue:
  "int (length samples) < n \<Longrightarrow>
   loglike v (Nd (Array2 (uniform_matrix u c low high 1000 (x_dim v)))) = Inr ll \<Longrightarrow>
   sample_loop v mx low high n u c samples =
     sample_loop v mx low high n u (c + 1000 * x_dim v + 1000)
       (accepted (uniform_matrix u c low high 1000 (x_dim v))
          (map (\<lambda>l. np_exp (l - mx)) (as_seq 1000 ll))
          (uniform_vector u (c + 1000 * x_dim v) 0 1 1000) @ samples)"
  by (subst sample_loop.simps) (simp add: Let_def)

lemma sample_loop_stop:
  "\<not> int (length samples) < n \<Longrightarrow>
   sample_loop v mx low high n u c samples = Some (Inr (samples, c))"
  by (subst sample_loop.simps) simp

lemma Himmelblau_corner: "call Himmelblau [- 5, - 5] = Inr (- 250)"
  by (simp add: Himmelblau_call_def py_index_def)

lemma ln2_ge_quarter: "1 / 4 \<le> ln (2::real)"
proof -
  have "exp (1 / 4 :: real) \<le> 1 + 1 / 4 + (1 / 4)\<^sup>2" by (rule exp_bound) simp_all
  then have "exp (1 / 4 :: real) \<le> 2" by (simp add: power2_eq_square)
  moreover have "(1 / 4 \<le> ln (2::real)) = (exp (1 / 4 :: real) \<le> 2)"
    by (rule ln_ge_iff) simp
  ultimately show ?thesis by blast
qed

lemma np_exp_above_underflow: "- 250 \<le> x \<Longrightarrow> np_exp x = exp x"
  using ln2_ge_quarter by (simp add: np_exp_def)

lemma np_exp_corner: "0 < np_exp (- 250)"
  by (simp add: np_exp_above_underflow)

lemma sample_Himmelblau_one:
  "sample Himmelblau 1 (\<lambda>k. 0) 0 = Some (Inr ([[- 5, - 5]], 3000))"
proof -
  have m: "max_loglike Himmelblau = Inr 0"
    by (simp add: Himmelblau_call_def py_index_def)
  have x: "uniform_matrix (\<lambda>k. 0) 0 [- 5, - 5] [5, 5] 1000 (x_dim Himmelblau) = replicate 1000 [- 5, - 5]"
    by (simp add: uniform_matrix_zero)
  have l: "loglike Himmelblau (Nd (Array2 (uniform_matrix (\<lambda>k. 0) 0 [- 5, - 5] [5, 5] 1000 (x_dim Himmelblau))))
             = Inr (Seq (replicate 1000 (- 250)))"
    unfolding x by (rule loglike_replicate [OF Himmelblau_corner])
  have "sample_loop Himmelblau 0 [- 5, - 5] [5, 5] 1 (\<lambda>k. 0) 0 []
          = sample_loop Himmelblau 0 [- 5, - 5] [5, 5] 1 (\<lambda>k. 0) 3000 (replicate 1000 [- 5, - 5])"
    by (subst sample_loop_continue [OF _ l])
       (simp_all add: uniform_matrix_zero uniform_vector_zero accepted_replicate np_exp_corner)
  also have "\<dots> = Some (Inr (replicate 1000 [- 5, - 5], 3000))"
    by (rule sample_loop_stop) simp
  finally have loop: "sample_loop Himmelblau 0 [- 5, - 5] [5, 5] 1 (\<lambda>k. 0) 0 []
          = Some (Inr (replicate 1000 [- 5, - 5], 3000))" .
  have t: "slice_to (replicate 1000 [- 5, - 5 :: real]) 1 = [[- 5, - 5]]"
    by (simp add: slice_to_def)
  show ?thesis
    by (subst sample_unfold) (simp add: m loop t numeral_2_eq_2 del: max_loglike.simps)
qed

subsection \<open>Acceptance, by index\<close>

lemma loglike_Array2_Seq:
  "loglike v (Nd (Array2 rs)) = Inr (Seq ys)
      \<longleftrightarrow> length ys = length rs \<and> (\<forall>i<length rs. call v (rs ! i) = Inr (ys ! i))"
  using collect_map_Inr [of "call v" rs ys]
  by (auto simp: loglike_def split: sum.splits)

lemma filter_zip_index:
  "length ys = length xs \<Longrightarrow>
     map fst (filter Q (zip xs ys)) = map ((!) xs) (filter (\<lambda>i. Q (xs ! i, ys ! i)) [0..<length xs])"
proof (induction xs arbitrary: ys)
  case Nil
  then show ?case by simp
next
  case (Cons x xs)
  then obtain y ys' where ys: "ys = y # ys'" and len: "length ys' = length xs"
    by (cases ys) auto
  have up: "[0..<length (x # xs)] = 0 # map Suc [0..<length xs]"
    by (simp add: upt_conv_Cons map_Suc_upt del: upt_Suc)
  show ?case
    unfolding up ys using Cons.IH [OF len]
    by (simp add: filter_map comp_def)
qed

lemma accepted_by_index:
  assumes "length ratio = length x" "length r = length x"
  shows "accepted x ratio r = map ((!) x) (filter (\<lambda>i. ratio ! i > r ! i) [0..<length x])"
proof -
  have "length (zip ratio r) = length x" using assms by simp
  from filter_zip_index [OF this, of "\<lambda>(xi, ra, ri). ra > ri"]
  have "accepted x ratio r
          = map ((!) x) (filter (\<lambda>i. fst (zip ratio r ! i) > snd (zip ratio r ! i)) [0..<length x])"
    by (simp add: accepted_def case_prod_beta)
  also have "\<dots> = map ((!) x) (filter (\<lambda>i. ratio ! i > r ! i) [0..<length x])"
    using assms by (intro arg_cong [where f = "map ((!) x)"] filter_cong) auto
  finally show ?thesis .
qed

lemma uniform_matrix_length: "length (uniform_matrix u c low high n d) = n"
  by (simp add: uniform_matrix_def)

lemma uniform_matrix_nth:
  "i < n \<Longrightarrow> uniform_matrix u c low high n d ! i = uniform_row u (c + i * d) low high"
  by (simp add: uniform_matrix_def)

lemma uniform_vector_nth: "i < n \<Longrightarrow> uniform_vector u c 0 1 n ! i = u (c + i)"
  by (simp add: uniform_vector_def)

lemma uniform_vector_length: "length (uniform_vector u c l h n) = n"
  by (simp add: uniform_vector_def)

lemma accepted_in_loop:
  assumes "length ll = 1000"
  shows "accepted (uniform_matrix u c low high 1000 d) (map (\<lambda>l. np_exp (l - mx)) ll)
           (uniform_vector u c1 0 1 1000)
         = map ((!) (uniform_matrix u c low high 1000 d))
             (filter (\<lambda>i. np_exp (ll ! i - mx) > u (c1 + i)) [0..<1000])"
proof -
  have "accepted (uniform_matrix u c low high 1000 d) (map (\<lambda>l. np_exp (l - mx)) ll)
           (uniform_vector u c1 0 1 1000)
        = map ((!) (uniform_matrix u c low high 1000 d))
            (filter (\<lambda>i. map (\<lambda>l. np_exp (l - mx)) ll ! i > uniform_vector u c1 0 1 1000 ! i)
               [0..<length (uniform_matrix u c low high 1000 d)])"
    by (rule accepted_by_index) (simp_all add: assms uniform_matrix_length uniform_vector_length)
  also have "\<dots> = map ((!) (uniform_matrix u c low high 1000 d))
             (filter (\<lambda>i. np_exp (ll ! i - mx) > u (c1 + i)) [0..<1000])"
    unfolding uniform_matrix_length
    by (intro arg_cong [where f = "map ((!) (uniform_matrix u c low high 1000 d))"] filter_cong)
       (simp_all add: assms uniform_vector_nth)
  finally show ?thesis .
qed

lemma map_nth_replicate: "map ((!) (replicate n p)) [0..<n] = replicate n p"
  using map_nth [of "replicate n p"] by simp

subsection \<open>The mixture of two equal components\<close>

lemma upt2: "[0..<2] = [0, 1]"
  by (simp add: numeral_2_eq_2)

lemma exp_sum_nonzero: "exp (x::real) + exp y \<noteq> 0"
  using exp_gt_zero [of x] exp_gt_zero [of y] by linarith

lemma mix2_call:
  "call (GaussianMix \<lparr>gm_x_dim = d, gm_sep = s, gm_weights = [1 / 2, 1 / 2], gm_sigma = 1,
         gm_sigmas = [1, 1], gm_positions = [(0, s), (0, - s)]\<rparr>) [a, b]
   = Inr (ln (exp (- ((a ^ 2 + (b - s) ^ 2) / 2) - ln (2 * pi) + ln (1 / 2))
            + exp (- ((a ^ 2 + (b + s) ^ 2) / 2) - ln (2 * pi) + ln (1 / 2))))"
  by (simp add: GaussianMix_call_def deepcopy_def isub_slice2_def upt2 logl_term_def
       py_index_def log_gaussian_pdf_def np_log_def logsumexp_def Let_def exp_sum_nonzero)

lemma mix2_call3:
  "call (GaussianMix \<lparr>gm_x_dim = d, gm_sep = s, gm_weights = [1 / 2, 1 / 2], gm_sigma = 1,
         gm_sigmas = [1, 1], gm_positions = [(0, s), (0, - s)]\<rparr>) [a, b, c]
   = Inr (ln (exp (- ((a ^ 2 + ((b - s) ^ 2 + c ^ 2)) / 2) - ln (2 * pi) * 3 / 2 + ln (1 / 2))
            + exp (- ((a ^ 2 + ((b + s) ^ 2 + c ^ 2)) / 2) - ln (2 * pi) * 3 / 2 + ln (1 / 2))))"
  by (simp add: GaussianMix_call_def deepcopy_def isub_slice2_def upt2 logl_term_def
       py_index_def log_gaussian_pdf_def np_log_def logsumexp_def Let_def exp_sum_nonzero)

lemma dimension_shift:
  "ln (exp (- ((0 ^ 2 + ((4 - 4) ^ 2 + 0 ^ 2)) / 2) - ln (2 * pi) * 3 / 2 + ln (1 / 2))
        + exp (- ((0 ^ 2 + ((4 + 4) ^ 2 + 0 ^ 2)) / 2) - ln (2 * pi) * 3 / 2 + ln (1 / 2)))
   = ln (exp (- ln (2 * pi) + ln (1 / 2)) + exp (- 32 - ln (2 * pi) + ln (1 / 2 :: real)))
       - ln (2 * pi) / 2"
proof -
  define A :: real where "A = exp (- ln (2 * pi) + ln (1 / 2)) + exp (- 32 - ln (2 * pi) + ln (1 / 2))"
  have A: "0 < A" unfolding A_def by (intro add_pos_pos) simp_all
  have e: "exp (- ((0 ^ 2 + ((4 - 4) ^ 2 + 0 ^ 2)) / 2) - ln (2 * pi) * 3 / 2 + ln (1 / 2))
        + exp (- ((0 ^ 2 + ((4 + 4) ^ 2 + 0 ^ 2)) / 2) - ln (2 * pi) * 3 / 2 + ln (1 / 2 :: real))
        = exp (- (ln (2 * pi) / 2)) * A"
    unfolding A_def by (simp add: exp_add [symmetric] distrib_left algebra_simps)
  have "ln (exp (- (ln (2 * pi) / 2)) * A) = - (ln (2 * pi) / 2) + ln A"
    using A by (simp add: ln_mult)
  then show ?thesis unfolding e A_def by simp
qed

lemma exp_shifted: "exp (t - ln (2 * pi) + ln (1 / 2)) = exp t * exp (- ln (2 * pi) + ln (1 / 2))"
  for t :: real
  by (simp add: exp_add [symmetric] algebra_simps)

lemma exp_numeric: "1 + exp (- (1 / 2)) < 2 * exp (- (1 / 8) :: real)"
proof -
  have "1 + 1 / 2 \<le> exp (1 / 2 :: real)" by (rule exp_ge_add_one_self)
  then have a: "exp (- (1 / 2) :: real) \<le> 2 / 3"
    by (simp add: exp_minus inverse_eq_divide field_simps)
  have "exp (1 / 8 :: real) \<le> 1 + 1 / 8 + (1 / 8)\<^sup>2" by (rule exp_bound) simp_all
  then have "exp (1 / 8 :: real) \<le> 73 / 64" by (simp add: power2_eq_square)
  moreover have "0 < exp (1 / 8 :: real)" by simp
  ultimately have b: "64 / 73 \<le> exp (- (1 / 8) :: real)"
    by (simp add: exp_minus inverse_eq_divide field_simps)
  from a b show ?thesis by linarith
qed

lemma mix2_origin_above_position:
  "ln (exp (- ((0 ^ 2 + (1 / 2 - 1 / 2) ^ 2) / 2) - ln (2 * pi) + ln (1 / 2))
        + exp (- ((0 ^ 2 + (1 / 2 + 1 / 2) ^ 2) / 2) - ln (2 * pi) + ln (1 / 2)))
   < ln (exp (- ((0 ^ 2 + (0 - 1 / 2) ^ 2) / 2) - ln (2 * pi) + ln (1 / 2))
        + exp (- ((0 ^ 2 + (0 + 1 / 2) ^ 2) / 2) - ln (2 * pi) + ln (1 / 2 :: real)))"
proof -
  define K :: real where "K = exp (- ln (2 * pi) + ln (1 / 2))"
  have K: "0 < K" by (simp add: K_def)
  have l: "exp (- ((0 ^ 2 + (1 / 2 - 1 / 2) ^ 2) / 2) - ln (2 * pi) + ln (1 / 2))
        + exp (- ((0 ^ 2 + (1 / 2 + 1 / 2) ^ 2) / 2) - ln (2 * pi) + ln (1 / 2))
        = (1 + exp (- (1 / 2))) * K"
    unfolding exp_shifted K_def by (simp add: algebra_simps)
  have r: "exp (- ((0 ^ 2 + (0 - 1 / 2) ^ 2) / 2) - ln (2 * pi) + ln (1 / 2))
        + exp (- ((0 ^ 2 + (0 + 1 / 2) ^ 2) / 2) - ln (2 * pi) + ln (1 / 2 :: real))
        = (2 * exp (- (1 / 8))) * K"
    unfolding exp_shifted K_def by (simp add: power2_eq_square)
  have "(1 + exp (- (1 / 2))) * K < (2 * exp (- (1 / 8))) * K"
    using exp_numeric K by (simp only: mult_less_cancel_right_pos)
  moreover have "0 < (1 + exp (- (1 / 2))) * K"
    using K by (intro mult_pos_pos add_pos_pos) simp_all
  ultimately show ?thesis
    unfolding l r by (simp only: ln_less_cancel_iff mult_pos_pos)
qed

section \<open>The claims\<close>

text \<open>
  C10. For every real 2-vector \<open>(x0, x1)\<close>, \<open>Eggbox\<close> evaluates to a value in the closed
  interval \<open>[1, 243]\<close> (so it is finite and strictly positive), and its \<open>max_loglike\<close> is
  243, the value at the zero vector.
\<close>

theorem Eggbox_bounded:
  "(\<exists>y. call Eggbox [x0, x1] = Inr y \<and> 1 \<le> y \<and> y \<le> 243)
   \<and> max_loglike Eggbox = Inr 243 \<and> call Eggbox [0, 0] = Inr 243"
proof -
  define chi where "chi = cos (x0 / 2) * cos (x1 / 2)"
  have b: "- 1 \<le> chi" "chi \<le> 1"
    using cos_prod_bounds [of "x0 / 2" "x1 / 2"] by (simp_all add: chi_def)
  have lo: "1 ^ 5 \<le> (2 + chi) ^ 5" using b by (intro power_mono) auto
  have hi: "(2 + chi) ^ 5 \<le> 3 ^ 5" using b by (intro power_mono) auto
  have "call Eggbox [x0, x1] = Inr ((2 + chi) ^ 5)"
    by (simp add: Eggbox_call_pair chi_def)
  then have 1: "\<exists>y. call Eggbox [x0, x1] = Inr y \<and> 1 \<le> y \<and> y \<le> 243"
    using lo hi by simp
  have 2: "call Eggbox [0, 0] = Inr 243" by (simp add: Eggbox_call_pair)
  have 3: "max_loglike Eggbox = Inr 243"
    by (simp add: Eggbox_call_pair numeral_2_eq_2)
  from 1 2 3 show ?thesis by blast
qed

text \<open>
  C5. \<open>max_loglike\<close> is the evaluation at the maximizer that the specification declares,
  for every class but a \<open>GaussianMix\<close> of \<open>x_dim\<close> other than 2 (an error of the one is
  the error of the other); \<open>Himmelblau\<close> at \<open>(3, 2)\<close> evaluates to 0, which is its
  \<open>max_loglike\<close>, and \<open>Rosenbrock\<close> at the all-ones vector of length \<open>x_dim\<close> evaluates
  to 0, which is its \<open>max_loglike\<close>. For \<open>GaussianMix(3, sep=4, weights=(0.5, 0.5))\<close>
  the source passes the two-element position \<open>(0, 4)\<close> to \<open>__call__\<close>, where
  \<open>log_gaussian_pdf\<close> takes \<open>ndim = 2\<close> from its length: \<open>max_loglike\<close> is
  \<open>log(2 * pi) / 2\<close> above the evaluation at the declared maximizer \<open>(0, 4, 0)\<close>.
\<close>

theorem max_loglike_at_max_location:
  "(x_dim v = 2 \<or> (\<forall>g. v \<noteq> GaussianMix g) \<longrightarrow>
      max_loglike v = (case max_location v of Inl e \<Rightarrow> Inl e | Inr p \<Rightarrow> call v p))
   \<and> call Himmelblau [3, 2] = Inr 0 \<and> max_loglike Himmelblau = Inr 0
   \<and> call (Rosenbrock d) (replicate d 1) = Inr 0 \<and> max_loglike (Rosenbrock d) = Inr 0
   \<and> max_location (GaussianMix \<lparr>gm_x_dim = 3, gm_sep = 4, gm_weights = [1 / 2, 1 / 2],
          gm_sigma = 1, gm_sigmas = [1, 1], gm_positions = [(0, 4), (0, - 4)]\<rparr>) = Inr [0, 4, 0]
   \<and> max_loglike (GaussianMix \<lparr>gm_x_dim = 3, gm_sep = 4, gm_weights = [1 / 2, 1 / 2],
          gm_sigma = 1, gm_sigmas = [1, 1], gm_positions = [(0, 4), (0, - 4)]\<rparr>)
        = Inr (ln (exp (- ln (2 * pi) + ln (1 / 2)) + exp (- 32 - ln (2 * pi) + ln (1 / 2))))
   \<and> call (GaussianMix \<lparr>gm_x_dim = 3, gm_sep = 4, gm_weights = [1 / 2, 1 / 2],
          gm_sigma = 1, gm_sigmas = [1, 1], gm_positions = [(0, 4), (0, - 4)]\<rparr>) [0, 4, 0]
        = Inr (ln (exp (- ln (2 * pi) + ln (1 / 2)) + exp (- 32 - ln (2 * pi) + ln (1 / 2)))
               - ln (2 * pi) / 2)"
proof -
  let ?g = "\<lparr>gm_x_dim = 3, gm_sep = 4, gm_weights = [1 / 2, 1 / 2],
          gm_sigma = 1, gm_sigmas = [1, 1], gm_positions = [(0, 4), (0, - 4 :: real)]\<rparr>"
  have 1: "x_dim v = 2 \<or> (\<forall>g. v \<noteq> GaussianMix g) \<longrightarrow>
      max_loglike v = (case max_location v of Inl e \<Rightarrow> Inl e | Inr p \<Rightarrow> call v p)"
    by (cases v) (simp_all add: numeral_2_eq_2 split: sum.splits)
  have 2: "call Himmelblau [3, 2] = Inr 0"
    by (simp add: Himmelblau_call_def py_index_def)
  have 3: "call (Rosenbrock d) (replicate d 1) = Inr 0"
    by (simp add: Rosenbrock_ones)
  have 4: "max_location (GaussianMix ?g) = Inr [0, 4, 0]"
    by (simp add: np_argmax_def py_index_def)
  have 5: "max_loglike (GaussianMix ?g)
        = Inr (ln (exp (- ln (2 * pi) + ln (1 / 2)) + exp (- 32 - ln (2 * pi) + ln (1 / 2))))"
    by (simp add: np_argmax_def py_index_def mix2_call del: call.simps)
  have 6: "call (GaussianMix ?g) [0, 4, 0]
        = Inr (ln (exp (- ln (2 * pi) + ln (1 / 2)) + exp (- 32 - ln (2 * pi) + ln (1 / 2)))
               - ln (2 * pi) / 2)"
    unfolding mix2_call3 dimension_shift ..
  from 1 2 3 4 5 6 show ?thesis by simp
qed

theorem max_loglike_at_max_location_witness:
  "x_dim (GaussianMix \<lparr>gm_x_dim = 2, gm_sep = 4, gm_weights = [1 / 2, 1 / 2],
          gm_sigma = 1, gm_sigmas = [1, 1], gm_positions = [(0, 4), (0, - 4)]\<rparr>) = 2
   \<and> max_location (GaussianMix \<lparr>gm_x_dim = 2, gm_sep = 4, gm_weights = [1 / 2, 1 / 2],
          gm_sigma = 1, gm_sigmas = [1, 1], gm_positions = [(0, 4), (0, - 4)]\<rparr>) = Inr [0, 4]
   \<and> max_loglike (GaussianMix \<lparr>gm_x_dim = 2, gm_sep = 4, gm_weights = [1 / 2, 1 / 2],
          gm_sigma = 1, gm_sigmas = [1, 1], gm_positions = [(0, 4), (0, - 4)]\<rparr>)
       = call (GaussianMix \<lparr>gm_x_dim = 2, gm_sep = 4, gm_weights = [1 / 2, 1 / 2],
          gm_sigma = 1, gm_sigmas = [1, 1], gm_positions = [(0, 4), (0, - 4)]\<rparr>) [0, 4]
   \<and> max_loglike Eggbox = call Eggbox [0, 0]"
proof -
  let ?g = "\<lparr>gm_x_dim = 2, gm_sep = 4, gm_weights = [1 / 2, 1 / 2],
          gm_sigma = 1, gm_sigmas = [1, 1], gm_positions = [(0, 4), (0, - 4 :: real)]\<rparr>"
  have l: "max_location (GaussianMix ?g) = Inr [0, 4]"
    by (simp add: np_argmax_def py_index_def)
  have e: "max_location Eggbox = Inr [0, 0]" by simp
  from max_loglike_at_max_location [where v = "GaussianMix ?g"]
       max_loglike_at_max_location [where v = Eggbox] l e
  show ?thesis by (simp del: call.simps max_loglike.simps)
qed

text \<open>
  C8. \<open>log_gaussian_pdf\<close> of the zero vector of dimension \<open>d\<close>, with \<open>sigma = 1\<close>,
  \<open>mu = 0\<close> and no \<open>ndim\<close>, is \<open>-d/2 * log(2 * pi)\<close>. A scalar \<open>theta\<close> (a Python float
  or int) is accepted, and without an explicit \<open>ndim\<close> it is treated as \<open>ndim = 1\<close>.
\<close>

theorem log_gaussian_pdf_zero_vector:
  "log_gaussian_pdf (NdArray (replicate d 0)) 1 0 None = Inr (- (real d / 2) * ln (2 * pi))
   \<and> log_gaussian_pdf (PyFloat a) sigma mu None = log_gaussian_pdf (PyFloat a) sigma mu (Some 1)
   \<and> log_gaussian_pdf (PyInt k) sigma mu None = log_gaussian_pdf (PyInt k) sigma mu (Some 1)
   \<and> log_gaussian_pdf (PyFloat a) 1 0 None = Inr (- (a ^ 2 / 2) - ln (2 * pi) / 2)"
  by (simp add: log_gaussian_pdf_def sum_list_replicate)

text \<open>
  C6, as the claim states it, fails: the weights \<open>(0.5, 0.500005)\<close> sum to a value that
  is not within \<open>1e-8\<close> of 1, and the construction succeeds.
\<close>

theorem GaussianMix_init_tolerance_counterexample:
  "\<not> \<bar>sum_list [1 / 2, 500005 / 1000000 :: real] - 1\<bar> \<le> 1 / 10 ^ 8
   \<and> GaussianMix_init 2 4 [1 / 2, 500005 / 1000000] 1 =
       Inr (GaussianMix \<lparr>gm_x_dim = 2, gm_sep = 4, gm_weights = [1 / 2, 500005 / 1000000],
             gm_sigma = 1, gm_sigmas = [1, 1], gm_positions = [(0, 4), (0, - 4)]\<rparr>)"
  by (simp add: GaussianMix_init_def isclose_def float_slack_def numeral_2_eq_2)

text \<open>
  C6, amended. The construction of \<open>GaussianMix\<close> fails with an AssertionError that
  carries a message when the number of weights is outside \<open>{2, 3, 4}\<close>, and when their
  sum is further from 1 than \<open>1e-8 + 1e-5\<close> (the default tolerances of \<open>np.isclose\<close>)
  by more than the rounding margin; it succeeds, keeping the weights, when the number
  is 2, 3 or 4 and the sum is within \<open>1e-8 + 1e-5\<close> of 1 by more than the margin.
  Nothing is said of a sum within the margin of the tolerance, where the rounding of
  the float sum decides. The weights \<open>(0.5, 0.5)\<close> succeed, \<open>(0.5, 0.4)\<close> fail, and any
  five weights fail.
\<close>

theorem GaussianMix_init_validation:
  "(length ws \<notin> {2, 3, 4} \<longrightarrow>
      GaussianMix_init d sep ws sigma
        = Inl (AssertionError ''Weights must have 2, 3 or 4 components. Weights=''))
   \<and> (length ws \<in> {2, 3, 4} \<and> 1 / 10 ^ 8 + 1 / 10 ^ 5 + float_slack ws < \<bar>sum_list ws - 1\<bar> \<longrightarrow>
      GaussianMix_init d sep ws sigma = Inl (AssertionError ''Weights must sum to 1! Weights=''))
   \<and> (length ws \<in> {2, 3, 4} \<and> \<bar>sum_list ws - 1\<bar> \<le> 1 / 10 ^ 8 + 1 / 10 ^ 5 - float_slack ws \<longrightarrow>
      GaussianMix_init d sep ws sigma
        = Inr (GaussianMix
            \<lparr>gm_x_dim = d, gm_sep = sep, gm_weights = ws, gm_sigma = sigma,
             gm_sigmas = replicate (length ws) sigma,
             gm_positions = take (length ws) [(0, sep), (0, - sep), (sep, 0), (- sep, 0)]\<rparr>))
   \<and> GaussianMix_init d sep [1 / 2, 1 / 2] sigma
        = Inr (GaussianMix
            \<lparr>gm_x_dim = d, gm_sep = sep, gm_weights = [1 / 2, 1 / 2], gm_sigma = sigma,
             gm_sigmas = [sigma, sigma], gm_positions = [(0, sep), (0, - sep)]\<rparr>)
   \<and> GaussianMix_init d sep [1 / 2, 4 / 10] sigma
        = Inl (AssertionError ''Weights must sum to 1! Weights='')
   \<and> GaussianMix_init d sep [w1, w2, w3, w4, w5] sigma
        = Inl (AssertionError ''Weights must have 2, 3 or 4 components. Weights='')"
proof -
  have 1: "length ws \<notin> {2, 3, 4} \<longrightarrow>
      GaussianMix_init d sep ws sigma
        = Inl (AssertionError ''Weights must have 2, 3 or 4 components. Weights='')"
    by (simp add: GaussianMix_init_def)
  have 2: "length ws \<in> {2, 3, 4} \<and> 1 / 10 ^ 8 + 1 / 10 ^ 5 + float_slack ws < \<bar>sum_list ws - 1\<bar> \<longrightarrow>
      GaussianMix_init d sep ws sigma = Inl (AssertionError ''Weights must sum to 1! Weights='')"
    using float_slack_pos [of ws] by (auto simp add: GaussianMix_init_def isclose_def Let_def)
  have 3: "length ws \<in> {2, 3, 4} \<and> \<bar>sum_list ws - 1\<bar> \<le> 1 / 10 ^ 8 + 1 / 10 ^ 5 - float_slack ws \<longrightarrow>
      GaussianMix_init d sep ws sigma
        = Inr (GaussianMix
            \<lparr>gm_x_dim = d, gm_sep = sep, gm_weights = ws, gm_sigma = sigma,
             gm_sigmas = replicate (length ws) sigma,
             gm_positions = take (length ws) [(0, sep), (0, - sep), (sep, 0), (- sep, 0)]\<rparr>)"
    by (auto simp add: GaussianMix_init_def isclose_def Let_def)
  have 4: "GaussianMix_init d sep [1 / 2, 1 / 2] sigma
        = Inr (GaussianMix
            \<lparr>gm_x_dim = d, gm_sep = sep, gm_weights = [1 / 2, 1 / 2], gm_sigma = sigma,
             gm_sigmas = [sigma, sigma], gm_positions = [(0, sep), (0, - sep)]\<rparr>)"
    by (simp add: GaussianMix_init_def isclose_def float_slack_def numeral_2_eq_2)
  have 5: "GaussianMix_init d sep [1 / 2, 4 / 10] sigma
        = Inl (AssertionError ''Weights must sum to 1! Weights='')"
    by (simp add: GaussianMix_init_def isclose_def float_slack_def)
  have 6: "GaussianMix_init d sep [w1, w2, w3, w4, w5] sigma
        = Inl (AssertionError ''Weights must have 2, 3 or 4 components. Weights='')"
    by (simp add: GaussianMix_init_def)
  from 1 2 3 4 5 6 show ?thesis by blast
qed

theorem GaussianMix_init_validation_witness:
  "length [1 / 2, 4 / 10 :: real] \<in> {2, 3, 4}
   \<and> 1 / 10 ^ 8 + 1 / 10 ^ 5 + float_slack [1 / 2, 4 / 10] < \<bar>sum_list [1 / 2, 4 / 10 :: real] - 1\<bar>
   \<and> GaussianMix_init 2 4 [1 / 2, 4 / 10] 1
        = Inl (AssertionError ''Weights must sum to 1! Weights='')
   \<and> length [4 / 10, 3 / 10, 2 / 10, 1 / 10 :: real] \<in> {2, 3, 4}
   \<and> \<bar>sum_list [4 / 10, 3 / 10, 2 / 10, 1 / 10 :: real] - 1\<bar>
        \<le> 1 / 10 ^ 8 + 1 / 10 ^ 5 - float_slack [4 / 10, 3 / 10, 2 / 10, 1 / 10]
   \<and> GaussianMix_init 2 4 [4 / 10, 3 / 10, 2 / 10, 1 / 10] 1
        = Inr (GaussianMix
            \<lparr>gm_x_dim = 2, gm_sep = 4, gm_weights = [4 / 10, 3 / 10, 2 / 10, 1 / 10],
             gm_sigma = 1, gm_sigmas = [1, 1, 1, 1],
             gm_positions = [(0, 4), (0, - 4), (4, 0), (- 4, 0)]\<rparr>)
   \<and> length [1 :: real] \<notin> {2, 3, 4}
   \<and> GaussianMix_init 2 4 [1] 1
        = Inl (AssertionError ''Weights must have 2, 3 or 4 components. Weights='')"
proof -
  have a: "length [1 / 2, 4 / 10 :: real] \<in> {2, 3, 4}
     \<and> 1 / 10 ^ 8 + 1 / 10 ^ 5 + float_slack [1 / 2, 4 / 10] < \<bar>sum_list [1 / 2, 4 / 10 :: real] - 1\<bar>"
    by (simp add: float_slack_def)
  have b: "length [4 / 10, 3 / 10, 2 / 10, 1 / 10 :: real] \<in> {2, 3, 4}
     \<and> \<bar>sum_list [4 / 10, 3 / 10, 2 / 10, 1 / 10 :: real] - 1\<bar>
        \<le> 1 / 10 ^ 8 + 1 / 10 ^ 5 - float_slack [4 / 10, 3 / 10, 2 / 10, 1 / 10]"
    by (simp add: float_slack_def)
  have c: "length [1 :: real] \<notin> {2, 3, 4}" by simp
  from a b c
       GaussianMix_init_validation [where d = 2 and sep = 4 and ws = "[1 / 2, 4 / 10]" and sigma = 1]
       GaussianMix_init_validation [where d = 2 and sep = 4
          and ws = "[4 / 10, 3 / 10, 2 / 10, 1 / 10]" and sigma = 1]
       GaussianMix_init_validation [where d = 2 and sep = 4 and ws = "[1]" and sigma = 1]
  show ?thesis by (simp add: numeral_eq_Suc)
qed

text \<open>
  C7, as the claim states it, fails: \<open>loglike\<close> of the base class on a two-dimensional
  array without rows calls nothing and returns the empty array.
\<close>

theorem base_class_empty_batch_counterexample:
  "loglike (Likelihood 2) (Nd (Array2 [])) = Inr (Seq [])"
  by (simp add: loglike_def)

text \<open>
  C7, amended. On the base class, \<open>__call__\<close>, \<open>max_loglike()\<close> and \<open>sample_range()\<close>
  raise NotImplementedError, and so does \<open>loglike\<close> on a single point and on every
  two-dimensional array with at least one row; on a two-dimensional array without rows
  \<open>loglike\<close> returns the empty array.
\<close>

theorem base_class_unimplemented:
  "call (Likelihood d) x = Inl NotImplementedError
   \<and> max_loglike (Likelihood d) = Inl NotImplementedError
   \<and> sample_range (Likelihood d) = Inl NotImplementedError
   \<and> loglike (Likelihood d) (Nd (Array1 x)) = Inl NotImplementedError
   \<and> loglike (Likelihood d) (PyFloats x) = Inl NotImplementedError
   \<and> loglike (Likelihood d) (Nd (Array2 (r # rs))) = Inl NotImplementedError
   \<and> loglike (Likelihood d) (Nd (Array2 [])) = Inr (Seq [])"
  by (simp add: loglike_def)

text \<open>
  C9. \<open>GaussianMix.__call__\<close> leaves its argument as it was: the in-place subtraction
  goes to the copies, so the array at the argument's address, and every other array the
  store held before the call, holds after the call the values it held before (also when
  the call raises).
\<close>

theorem GaussianMix_call_keeps_argument:
  "a < length h \<Longrightarrow>
     fst (GaussianMix_call g h a) ! a = h ! a
     \<and> take (length h) (fst (GaussianMix_call g h a)) = h"
proof -
  assume a: "a < length h"
  obtain r where "shifted_copies h a (gm_positions g) [] = (fst (GaussianMix_call g h a), r)"
    using GaussianMix_call_store by blast
  then have p: "take (length h) (fst (GaussianMix_call g h a)) = h"
    using shifted_copies_prefix by blast
  have "fst (GaussianMix_call g h a) ! a = take (length h) (fst (GaussianMix_call g h a)) ! a"
    using a by simp
  with p show ?thesis by simp
qed

theorem GaussianMix_call_keeps_argument_witness:
  "(0::nat) < length [[1, 2, 3 :: real]]
   \<and> fst (GaussianMix_call
        \<lparr>gm_x_dim = 3, gm_sep = 4, gm_weights = [1 / 2, 1 / 2], gm_sigma = 1,
         gm_sigmas = [1, 1], gm_positions = [(0, 4), (0, - 4)]\<rparr> [[1, 2, 3]] 0) ! 0 = [1, 2, 3]"
  using GaussianMix_call_keeps_argument [of 0 "[[1, 2, 3]]"
        "\<lparr>gm_x_dim = 3, gm_sep = 4, gm_weights = [1 / 2, 1 / 2], gm_sigma = 1,
         gm_sigmas = [1, 1], gm_positions = [(0, 4), (0, - 4)]\<rparr>"]
  by simp

text \<open>
  C1, as the claim states it, fails for a list of no points: \<open>np.array([])\<close> has shape
  \<open>(0,)\<close>, so \<open>loglike\<close> takes \<open>[]\<close> for one point of no coordinates and returns
  a scalar (\<open>Rosenbrock\<close>) or raises (\<open>Himmelblau\<close>), not the empty sequence.
\<close>

theorem loglike_empty_list_counterexample:
  "loglike (Rosenbrock 2) (PyPoints []) = Inr (Scalar 0) \<and> loglike Himmelblau (PyPoints []) = Inl IndexError"
  by (simp add: loglike_def Rosenbrock_call_def Himmelblau_call_def py_index_def)

text \<open>
  C1, amended. On a two-dimensional array of \<open>N \<ge> 0\<close> rows \<open>loglike\<close> returns a
  sequence \<open>ys\<close> exactly when \<open>ys\<close> has \<open>N\<close> entries and entry \<open>i\<close> is the value of
  \<open>__call__\<close> on row \<open>i\<close> alone (so it raises when some row raises, and never returns
  a scalar); for \<open>N = 0\<close> the result is the empty sequence; and a non-empty Python list
  of points of one length is evaluated as the array of those rows.
\<close>

theorem loglike_is_rowwise_call:
  "(loglike v (Nd (Array2 rs)) = Inr (Seq ys)
      \<longleftrightarrow> length ys = length rs \<and> (\<forall>i<length rs. call v (rs ! i) = Inr (ys ! i)))
   \<and> loglike v (Nd (Array2 rs)) \<noteq> Inr (Scalar s)
   \<and> loglike v (Nd (Array2 [])) = Inr (Seq [])
   \<and> (list_all (\<lambda>q. length q = length r) rs \<longrightarrow>
        loglike v (PyPoints (r # rs)) = loglike v (Nd (Array2 (r # rs))))"
proof -
  have 1: "loglike v (Nd (Array2 rs)) = Inr (Seq ys)
      \<longleftrightarrow> length ys = length rs \<and> (\<forall>i<length rs. call v (rs ! i) = Inr (ys ! i))"
    using collect_map_Inr [of "call v" rs ys]
    by (auto simp: loglike_def split: sum.splits)
  have 2: "loglike v (Nd (Array2 rs)) \<noteq> Inr (Scalar s)"
    by (simp add: loglike_def split: sum.splits)
  have 3: "loglike v (Nd (Array2 [])) = Inr (Seq [])"
    by (simp add: loglike_def)
  have 4: "list_all (\<lambda>q. length q = length r) rs \<longrightarrow>
        loglike v (PyPoints (r # rs)) = loglike v (Nd (Array2 (r # rs)))"
    by (simp add: loglike_def)
  from 1 2 3 4 show ?thesis by blast
qed

theorem loglike_is_rowwise_call_witness:
  "loglike Himmelblau (Nd (Array2 [[3, 2], [0, 0]])) = Inr (Seq [0, - 170])
   \<and> loglike Himmelblau (PyPoints [[3, 2], [0, 0]]) = Inr (Seq [0, - 170])"
proof -
  have c: "\<forall>i<length [[3, 2], [0, 0 :: real]]. call Himmelblau ([[3, 2], [0, 0]] ! i) = Inr ([0, - 170] ! i)"
    by (simp add: less_Suc_eq Himmelblau_call_def py_index_def)
  show ?thesis
    using c loglike_is_rowwise_call [of Himmelblau "[[3, 2], [0, 0]]" "[0, - 170]" 0 "[3, 2]"]
          loglike_is_rowwise_call [of Himmelblau "[[0, 0]]" "[]" 0 "[3, 2]"]
    by simp
qed

text \<open>
  C3. For every non-negative \<open>num_samples\<close>, whenever \<open>sample\<close> returns rows, it returns
  exactly \<open>num_samples\<close> of them, and each row has \<open>x_dim\<close> coordinates and lies
  componentwise within the bounds of \<open>sample_range\<close>. The generator's variates lie in
  \<open>[0, 1)\<close>, and the lower bounds are not above the upper bounds (the data model's
  invariant of \<open>sample_range\<close>).
\<close>

theorem sample_returns_rows_in_box:
  assumes "sample v n u c = Some (Inr (rows, c'))"
    and "0 \<le> n"
    and "sample_range v = Inr (low, high)"
    and "list_all2 (\<le>) low high"
    and "\<forall>k. 0 \<le> u k \<and> u k < 1"
  shows "int (length rows) = n
         \<and> (\<forall>p \<in> set rows. length p = x_dim v \<and> in_box low high p)"
proof -
  from sample_Inr_loop [OF assms(1) assms(3)] obtain mx samples
    where loop: "sample_loop v mx low high n u c [] = Some (Inr (samples, c'))"
      and rows: "rows = slice_to samples n"
    by blast
  from sample_loop_invariant [OF loop assms(4) assms(5)]
  have inv: "\<forall>p \<in> set samples. in_box low high p" "n \<le> int (length samples)"
    by simp_all
  have "length rows = min (nat n) (length samples)"
    using rows assms(2) by (simp add: slice_to_def)
  with inv(2) assms(2) have len: "int (length rows) = n" by linarith
  have "set rows \<subseteq> set samples"
    using rows assms(2) by (auto simp: slice_to_def dest: in_set_takeD)
  with inv(1) have "\<forall>p \<in> set rows. in_box low high p" by blast
  then show ?thesis
    using len in_box_length sample_range_lengths [OF assms(3)] by auto
qed


theorem sample_returns_rows_in_box_witness:
  "sample Himmelblau 1 (\<lambda>k. 0) 0 = Some (Inr ([[- 5, - 5]], 3000))
   \<and> (0::int) \<le> 1
   \<and> sample_range Himmelblau = Inr ([- 5, - 5], [5, 5])
   \<and> list_all2 (\<le>) [- 5, - 5 :: real] [5, 5]
   \<and> (\<forall>k::nat. (0::real) \<le> 0 \<and> (0::real) < 1)
   \<and> int (length [[- 5, - 5 :: real]]) = 1
   \<and> in_box [- 5, - 5] [5, 5] [- 5, - 5]"
proof -
  have r: "sample_range Himmelblau = Inr ([- 5, - 5], [5, 5])"
    by (simp add: numeral_2_eq_2)
  have b: "list_all2 (\<le>) [- 5, - 5 :: real] [5, 5]" by simp
  have u: "\<forall>k::nat. (0::real) \<le> (\<lambda>k. 0) k \<and> (\<lambda>k. 0 :: real) k < 1" by simp
  have z: "(0::int) \<le> 1" by simp
  from sample_returns_rows_in_box [OF sample_Himmelblau_one z r b u] r b
  show ?thesis by (simp add: sample_Himmelblau_one del: sample.simps sample_range.simps)
qed

text \<open>
  C4. The algorithm of \<open>sample\<close>, for a class whose \<open>max_loglike\<close> is \<open>mx\<close> and whose
  \<open>sample_range\<close> is \<open>(low, high)\<close>. With nothing accumulated, and as long as fewer
  than \<open>num_samples\<close> rows are accumulated, an iteration draws 1000 candidates of
  \<open>x_dim\<close> coordinates, coordinate \<open>j\<close> of candidate \<open>i\<close> being
  \<open>low[j] + (high[j] - low[j]) * variate\<close> for a variate of its own; it evaluates them
  in one call of \<open>loglike\<close>; with one further variate per candidate it keeps candidate
  \<open>i\<close> exactly when \<open>np.exp(loglike[i] - mx)\<close> is strictly above that variate; and it
  puts the kept candidates in front of the accumulated ones. The loop stops as soon as
  at least \<open>num_samples\<close> rows are accumulated, and \<open>sample\<close> returns the first
  \<open>num_samples\<close> of them. That the variates are independent and uniform on \<open>[0, 1)\<close>
  is the generator's contract; every variate of the stream is used once.
\<close>

theorem rejection_sampler_algorithm:
  assumes "max_loglike v = Inr mx" and "sample_range v = Inr (low, high)"
    and "length ll = 1000"
    and "\<forall>i<1000. call v (uniform_matrix u c low high 1000 (x_dim v) ! i) = Inr (ll ! i)"
  shows "(let X = uniform_matrix u c low high 1000 (x_dim v);
              c1 = c + 1000 * x_dim v;
              kept = map ((!) X) (filter (\<lambda>i. np_exp (ll ! i - mx) > u (c1 + i)) [0..<1000])
          in
     length X = 1000
     \<and> (\<forall>i<1000. length (X ! i) = x_dim v
           \<and> (\<forall>j<x_dim v. X ! i ! j = low ! j + (high ! j - low ! j) * u (c + i * x_dim v + j)))
     \<and> loglike v (Nd (Array2 X)) = Inr (Seq ll)
     \<and> (0 < n \<longrightarrow>
          sample v n u c =
            (case sample_loop v mx low high n u (c1 + 1000) kept of
               None \<Rightarrow> None
             | Some (Inl e) \<Rightarrow> Some (Inl e)
             | Some (Inr (samples, c')) \<Rightarrow> Some (Inr (slice_to samples n, c'))))
     \<and> (n \<le> 0 \<longrightarrow> sample v n u c = Some (Inr ([], c)))
     \<and> (int (length samples) < n \<longrightarrow>
          sample_loop v mx low high n u c samples =
          sample_loop v mx low high n u (c1 + 1000) (kept @ samples))
     \<and> (\<not> int (length samples) < n \<longrightarrow>
          sample_loop v mx low high n u c samples = Some (Inr (samples, c))))"
proof -
  let ?X = "uniform_matrix u c low high 1000 (x_dim v)"
  let ?c1 = "c + 1000 * x_dim v"
  let ?kept = "map ((!) ?X) (filter (\<lambda>i. np_exp (ll ! i - mx) > u (?c1 + i)) [0..<1000])"
  have len: "length low = x_dim v" "length high = x_dim v"
    using sample_range_lengths [OF assms(2)] by simp_all
  have nb: "\<forall>d. v \<noteq> Likelihood d"
    using assms(1) by auto
  have wrap: "sample v n u c =
      (case sample_loop v mx low high n u c [] of
         None \<Rightarrow> None
       | Some (Inl e) \<Rightarrow> Some (Inl e)
       | Some (Inr (samples, c')) \<Rightarrow> Some (Inr (slice_to samples n, c')))"
    using nb assms(1,2)
    by (subst sample_unfold, cases v)
       (simp_all del: max_loglike.simps sample_range.simps)
  have 1: "length ?X = 1000" by (rule uniform_matrix_length)
  have 2: "\<forall>i<1000. length (?X ! i) = x_dim v
           \<and> (\<forall>j<x_dim v. ?X ! i ! j = low ! j + (high ! j - low ! j) * u (c + i * x_dim v + j))"
    using len by (simp add: uniform_matrix_nth uniform_row_length uniform_row_nth add.assoc)
  have 3: "loglike v (Nd (Array2 ?X)) = Inr (Seq ll)"
    using loglike_Array2_Seq [of v ?X ll] assms(3,4) 1 by simp
  have step: "\<And>samples. int (length samples) < n \<Longrightarrow>
          sample_loop v mx low high n u c samples =
          sample_loop v mx low high n u (?c1 + 1000) (?kept @ samples)"
    using sample_loop_continue [OF _ 3, of _ n mx] accepted_in_loop [OF assms(3)]
    by simp
  have stop: "\<And>samples. \<not> int (length samples) < n \<Longrightarrow>
          sample_loop v mx low high n u c samples = Some (Inr (samples, c))"
    by (rule sample_loop_stop)
  have 4: "0 < n \<longrightarrow>
          sample v n u c =
            (case sample_loop v mx low high n u (?c1 + 1000) ?kept of
               None \<Rightarrow> None
             | Some (Inl e) \<Rightarrow> Some (Inl e)
             | Some (Inr (samples, c')) \<Rightarrow> Some (Inr (slice_to samples n, c')))"
    using step [of "[]"] by (simp add: wrap)
  have 5: "n \<le> 0 \<longrightarrow> sample v n u c = Some (Inr ([], c))"
    using stop [of "[]"] by (simp add: wrap slice_to_def)
  have 6: "int (length samples) < n \<longrightarrow>
          sample_loop v mx low high n u c samples =
          sample_loop v mx low high n u (?c1 + 1000) (?kept @ samples)"
    using step by blast
  have 7: "\<not> int (length samples) < n \<longrightarrow>
          sample_loop v mx low high n u c samples = Some (Inr (samples, c))"
    using stop by blast
  from 1 2 3 4 5 6 7 show ?thesis by (simp add: Let_def)
qed

theorem rejection_sampler_algorithm_witness:
  "max_loglike Himmelblau = Inr 0
   \<and> sample_range Himmelblau = Inr ([- 5, - 5], [5, 5])
   \<and> length (replicate 1000 (- 250 :: real)) = 1000
   \<and> loglike Himmelblau (Nd (Array2 (uniform_matrix (\<lambda>k. 0) 0 [- 5, - 5] [5, 5] 1000 2)))
        = Inr (Seq (replicate 1000 (- 250)))
   \<and> sample_loop Himmelblau 0 [- 5, - 5] [5, 5] 1 (\<lambda>k. 0) 0 []
        = sample_loop Himmelblau 0 [- 5, - 5] [5, 5] 1 (\<lambda>k. 0) 3000 (replicate 1000 [- 5, - 5])
   \<and> sample_loop Himmelblau 0 [- 5, - 5] [5, 5] 1 (\<lambda>k. 0) 3000 (replicate 1000 [- 5, - 5])
        = Some (Inr (replicate 1000 [- 5, - 5], 3000))
   \<and> sample Himmelblau 1 (\<lambda>k. 0) 0 = Some (Inr ([[- 5, - 5]], 3000))
   \<and> sample Himmelblau 0 (\<lambda>k. 0) 0 = Some (Inr ([], 0))"
proof -
  have m: "max_loglike Himmelblau = Inr 0"
    by (simp add: Himmelblau_call_def py_index_def)
  have r: "sample_range Himmelblau = Inr ([- 5, - 5], [5, 5])"
    by (simp add: numeral_2_eq_2)
  have l: "length (replicate 1000 (- 250 :: real)) = 1000" by simp
  have x: "\<And>c. uniform_matrix (\<lambda>k. 0) c [- 5, - 5] [5, 5] 1000 2 = replicate 1000 [- 5, - 5]"
    by (simp add: uniform_matrix_zero)
  have c: "\<And>c. \<forall>i<1000. call Himmelblau
              (uniform_matrix (\<lambda>k. 0) c [- 5, - 5] [5, 5] 1000 (x_dim Himmelblau) ! i)
            = Inr (replicate 1000 (- 250) ! i)"
    using Himmelblau_corner by (simp add: x del: call.simps)
  have k: "map ((!) (replicate 1000 [- 5, - 5 :: real]))
             (filter (\<lambda>i. 0 < np_exp (replicate 1000 (- 250) ! i)) [0..<1000])
           = replicate 1000 [- 5, - 5]"
  proof -
    have "filter (\<lambda>i. 0 < np_exp (replicate 1000 (- 250) ! i)) [0..<1000] = [0..<1000]"
      by (rule filter_True) (simp add: np_exp_corner)
    then show ?thesis by (simp only: map_nth_replicate)
  qed
  have t: "slice_to (replicate 1000 [- 5, - 5 :: real]) 1 = [[- 5, - 5]]"
    by (simp add: slice_to_def)
  from rejection_sampler_algorithm [OF m r l c [of 0], of "1" "[]"]
  have first: "sample Himmelblau 1 (\<lambda>k. 0) 0 =
            (case sample_loop Himmelblau 0 [- 5, - 5] [5, 5] 1 (\<lambda>k. 0) 3000
                    (replicate 1000 [- 5, - 5]) of
               None \<Rightarrow> None
             | Some (Inl e) \<Rightarrow> Some (Inl e)
             | Some (Inr (samples, c')) \<Rightarrow> Some (Inr (slice_to samples 1, c')))"
    and batch: "loglike Himmelblau (Nd (Array2 (uniform_matrix (\<lambda>k. 0) 0 [- 5, - 5] [5, 5] 1000 2)))
        = Inr (Seq (replicate 1000 (- 250)))"
    and step: "sample_loop Himmelblau 0 [- 5, - 5] [5, 5] 1 (\<lambda>k. 0) 0 []
        = sample_loop Himmelblau 0 [- 5, - 5] [5, 5] 1 (\<lambda>k. 0) 3000 (replicate 1000 [- 5, - 5])"
    by (simp_all add: Let_def x k del: call.simps sample.simps max_loglike.simps sample_range.simps)
  from rejection_sampler_algorithm [OF m r l c [of 3000], of "1" "replicate 1000 [- 5, - 5]"]
  have stop: "sample_loop Himmelblau 0 [- 5, - 5] [5, 5] 1 (\<lambda>k. 0) 3000 (replicate 1000 [- 5, - 5])
        = Some (Inr (replicate 1000 [- 5, - 5], 3000))"
    by (simp add: Let_def del: call.simps sample.simps max_loglike.simps sample_range.simps)
  from rejection_sampler_algorithm [OF m r l c [of 0], of "0" "[]"]
  have none: "sample Himmelblau 0 (\<lambda>k. 0) 0 = Some (Inr ([], 0))"
    by (simp add: Let_def del: call.simps sample.simps max_loglike.simps sample_range.simps)
  have run: "sample Himmelblau 1 (\<lambda>k. 0) 0 = Some (Inr ([[- 5, - 5]], 3000))"
    unfolding first stop by (simp add: t)
  from m r l batch step stop run none show ?thesis by blast
qed

text \<open>
  C2. \<open>max_loglike\<close> is to bound the log-density over the box of \<open>sample_range\<close>. The
  source breaks this for \<open>GaussianMix\<close>, whose \<open>max_loglike\<close> is the log-density at the
  position of the component of largest weight: with two components of weight \<open>0.5\<close>,
  \<open>sep = 0.5\<close> and \<open>sigma = 1\<close> the components overlap, and the origin, a point of
  the box \<open>[-5.5, 5.5]\<close> squared, has a log-density strictly above \<open>max_loglike\<close>, the
  log-density at the first component's position \<open>(0, 0.5)\<close>.
\<close>

theorem GaussianMix_max_loglike_understates:
  "GaussianMix_init 2 (1 / 2) [1 / 2, 1 / 2] 1 =
     Inr (GaussianMix \<lparr>gm_x_dim = 2, gm_sep = 1 / 2, gm_weights = [1 / 2, 1 / 2], gm_sigma = 1,
            gm_sigmas = [1, 1], gm_positions = [(0, 1 / 2), (0, - (1 / 2))]\<rparr>)
   \<and> sample_range (GaussianMix \<lparr>gm_x_dim = 2, gm_sep = 1 / 2, gm_weights = [1 / 2, 1 / 2],
            gm_sigma = 1, gm_sigmas = [1, 1], gm_positions = [(0, 1 / 2), (0, - (1 / 2))]\<rparr>)
        = Inr ([- (11 / 2), - (11 / 2)], [11 / 2, 11 / 2])
   \<and> in_box [- (11 / 2), - (11 / 2)] [11 / 2, 11 / 2] [0, 0]
   \<and> (case (max_loglike (GaussianMix \<lparr>gm_x_dim = 2, gm_sep = 1 / 2, gm_weights = [1 / 2, 1 / 2],
                 gm_sigma = 1, gm_sigmas = [1, 1], gm_positions = [(0, 1 / 2), (0, - (1 / 2))]\<rparr>),
             call (GaussianMix \<lparr>gm_x_dim = 2, gm_sep = 1 / 2, gm_weights = [1 / 2, 1 / 2],
                 gm_sigma = 1, gm_sigmas = [1, 1], gm_positions = [(0, 1 / 2), (0, - (1 / 2))]\<rparr>) [0, 0])
        of (Inr m, Inr y) \<Rightarrow> m < y | _ \<Rightarrow> False)"
proof -
  let ?g = "\<lparr>gm_x_dim = 2, gm_sep = 1 / 2, gm_weights = [1 / 2, 1 / 2],
                 gm_sigma = 1, gm_sigmas = [1, 1], gm_positions = [(0, 1 / 2), (0, - (1 / 2))]\<rparr>"
  have 1: "GaussianMix_init 2 (1 / 2) [1 / 2, 1 / 2] 1 = Inr (GaussianMix ?g)"
    by (simp add: GaussianMix_init_def isclose_def float_slack_def numeral_2_eq_2)
  have 2: "sample_range (GaussianMix ?g) = Inr ([- (11 / 2), - (11 / 2)], [11 / 2, 11 / 2])"
    by (simp add: numeral_2_eq_2)
  have 3: "in_box [- (11 / 2), - (11 / 2)] [11 / 2, 11 / 2] [0, 0]"
    by (simp add: in_box_def)
  have m: "max_loglike (GaussianMix ?g) = call (GaussianMix ?g) [0, 1 / 2]"
    by (simp add: np_argmax_def py_index_def del: call.simps)
  have 4: "(case (max_loglike (GaussianMix ?g), call (GaussianMix ?g) [0, 0])
        of (Inr m, Inr y) \<Rightarrow> m < y | _ \<Rightarrow> False)"
    unfolding m mix2_call using mix2_origin_above_position by simp
  from 1 2 3 4 show ?thesis by blast
qed

end
